theory Spec2Isabelle
  imports Complex_Main "HOL-Library.Char_ord" "HOL-Library.List_Lexorder" "HOL-Library.Product_Lexorder"
    "HOL-Library.Multiset"
begin

section \<open>Record model\<close>

text \<open>
  The detectors of \<^verbatim>\<open>src/agents/tools.py\<close> read three record sets from the processed
  data directory: \<^verbatim>\<open>contracts.json\<close>, \<^verbatim>\<open>billing_records.csv\<close> and
  \<^verbatim>\<open>usage_logs.json\<close>. A contract and a usage log are JSON objects, a billing record
  is a row of the CSV frame. The rows are modelled as records with one field per key
  that the detectors read. The fields are prefixed (\<open>c_\<close>, \<open>b_\<close>, \<open>u_\<close>, \<open>d_\<close>,
  \<open>m_\<close>) because the dictionaries of the source share their key names.

  The numeric columns (\<^verbatim>\<open>agreed_rate\<close>, \<^verbatim>\<open>billed_rate\<close>, \<^verbatim>\<open>usage_quantity\<close>,
  \<^verbatim>\<open>total_charge\<close>, \<^verbatim>\<open>recorded_usage\<close>) are read as exact rationals: the
  arithmetic of the source is modelled without the rounding of binary floating point.
\<close>

type_synonym key = "string \<times> string"

record contract =
  c_contract_id :: string
  c_customer_id :: string
  c_service_type :: string
  c_agreed_rate :: rat
  c_start_date :: string
  c_end_date :: string

record billing_record =
  b_invoice_id :: int
  b_customer_id :: string
  b_service_type :: string
  b_billed_rate :: rat
  b_usage_quantity :: rat
  b_total_charge :: rat
  b_date :: string

record usage_log =
  u_customer_id :: string
  u_service_type :: string
  u_recorded_usage :: rat

text \<open>
  The processed data directory. A file that does not exist
  (\<^verbatim>\<open>os.path.exists\<close> is false) is \<open>None\<close>.
\<close>

record data_dir =
  contracts_file :: "contract list option"
  billing_file :: "billing_record list option"
  usage_file :: "usage_log list option"

text \<open>
  The detectors do not raise on a missing file: they return a message. The three
  messages of the source are the three values of this type.
\<close>

datatype missing_input =
  ContractsFileNotFound
  | BillingFileNotFound
  | UsageLogsFileNotFound

text \<open>
  A report of the source is a string built line by line. The model keeps the parts of
  the string that carry data: the headline with the count, the total, one block per
  detailed finding (with its 1-based number) and the trailing line that counts the
  findings left out.
\<close>

datatype 'd report_part =
  NoneFound
  | Found nat
  | Total rat
  | Detail nat 'd
  | AndMore nat

definition contract_key :: "contract \<Rightarrow> key" where
  "contract_key c = (c_customer_id c, c_service_type c)"

definition billing_key :: "billing_record \<Rightarrow> key" where
  "billing_key row = (b_customer_id row, b_service_type row)"

definition usage_key :: "usage_log \<Rightarrow> key" where
  "usage_key l = (u_customer_id l, u_service_type l)"

section \<open>compare\_rates\<close>

text \<open>The dictionary that \<^verbatim>\<open>compare_rates\<close> appends for a flagged row.\<close>

record discrepancy =
  d_invoice_id :: int
  d_customer_id :: string
  d_service_type :: string
  d_agreed_rate :: rat
  d_billed_rate :: rat
  d_usage_quantity :: rat
  d_total_charge :: rat
  d_correct_charge :: rat
  d_revenue_impact :: rat
  d_date :: string

text \<open>
  \<^verbatim>\<open>if customer_id:\<close> tests the truth value of an optional string: \<^verbatim>\<open>None\<close> and
  the empty string both leave the data unfiltered.
\<close>

definition truthy :: "string option \<Rightarrow> bool" where
  "truthy f = (case f of None \<Rightarrow> False | Some s \<Rightarrow> s \<noteq> [])"

definition filter_contracts :: "string option \<Rightarrow> string option \<Rightarrow> contract list \<Rightarrow> contract list" where
  "filter_contracts customer_id service_type contracts =
     (let contracts1 = (if truthy customer_id
                        then filter (\<lambda>c. Some (c_customer_id c) = customer_id) contracts
                        else contracts)
      in if truthy service_type
         then filter (\<lambda>c. Some (c_service_type c) = service_type) contracts1
         else contracts1)"

definition filter_billing :: "string option \<Rightarrow> string option \<Rightarrow> billing_record list \<Rightarrow> billing_record list" where
  "filter_billing customer_id service_type billing_df =
     (let billing1 = (if truthy customer_id
                      then filter (\<lambda>r. Some (b_customer_id r) = customer_id) billing_df
                      else billing_df)
      in if truthy service_type
         then filter (\<lambda>r. Some (b_service_type r) = service_type) billing1
         else billing1)"

text \<open>The loop that fills \<^verbatim>\<open>contract_lookup\<close>: a later contract overwrites an earlier one.\<close>

fun contract_lookup :: "contract list \<Rightarrow> (key \<rightharpoonup> contract) \<Rightarrow> (key \<rightharpoonup> contract)" where
  "contract_lookup [] m = m"
| "contract_lookup (c # cs) m = contract_lookup cs (m(contract_key c \<mapsto> c))"

definition make_discrepancy :: "contract \<Rightarrow> billing_record \<Rightarrow> discrepancy" where
  "make_discrepancy c row =
     \<lparr> d_invoice_id = b_invoice_id row,
       d_customer_id = b_customer_id row,
       d_service_type = b_service_type row,
       d_agreed_rate = c_agreed_rate c,
       d_billed_rate = b_billed_rate row,
       d_usage_quantity = b_usage_quantity row,
       d_total_charge = b_total_charge row,
       d_correct_charge = c_agreed_rate c * b_usage_quantity row,
       d_revenue_impact = (c_agreed_rate c - b_billed_rate row) * b_usage_quantity row,
       d_date = b_date row \<rparr>"

text \<open>The loop over the rows of the billing frame.\<close>

fun discrepancies :: "(key \<rightharpoonup> contract) \<Rightarrow> billing_record list \<Rightarrow> discrepancy list" where
  "discrepancies lookup [] = []"
| "discrepancies lookup (row # rows) =
     (case lookup (billing_key row) of
        None \<Rightarrow> discrepancies lookup rows
      | Some c \<Rightarrow>
          if \<bar>c_agreed_rate c - b_billed_rate row\<bar> > 1 / 10000
          then make_discrepancy c row # discrepancies lookup rows
          else discrepancies lookup rows)"

definition rate_discrepancies ::
  "string option \<Rightarrow> string option \<Rightarrow> contract list \<Rightarrow> billing_record list \<Rightarrow> discrepancy list" where
  "rate_discrepancies customer_id service_type contracts billing_df =
     discrepancies
       (contract_lookup (filter_contracts customer_id service_type contracts) Map.empty)
       (filter_billing customer_id service_type billing_df)"

text \<open>
  The report. The headline and the total are computed from the whole list; the details
  are written for \<^verbatim>\<open>discrepancies[:10]\<close> only. The source prints the money amounts
  with two decimals; the model keeps the value that is printed.
\<close>

fun details :: "nat \<Rightarrow> 'd list \<Rightarrow> 'd report_part list" where
  "details i [] = []"
| "details i (d # ds) = Detail (Suc i) d # details (Suc i) ds"

definition rate_report :: "discrepancy list \<Rightarrow> discrepancy report_part list" where
  "rate_report ds =
     (if ds = [] then [NoneFound]
      else [Found (length ds), Total (sum_list (map d_revenue_impact ds))]
           @ details 0 (take 10 ds)
           @ (if length ds > 10 then [AndMore (length ds - 10)] else []))"

text \<open>
  The findings of \<^verbatim>\<open>compare_rates\<close> (the list \<^verbatim>\<open>discrepancies\<close> before the report is
  generated), and the function itself.
\<close>

definition compare_rates_findings ::
  "data_dir \<Rightarrow> string option \<Rightarrow> string option \<Rightarrow> missing_input + discrepancy list" where
  "compare_rates_findings dir customer_id service_type =
     (case contracts_file dir of
        None \<Rightarrow> Inl ContractsFileNotFound
      | Some contracts \<Rightarrow>
          (case billing_file dir of
             None \<Rightarrow> Inl BillingFileNotFound
           | Some billing_df \<Rightarrow>
               Inr (rate_discrepancies customer_id service_type contracts billing_df)))"

definition compare_rates ::
  "data_dir \<Rightarrow> string option \<Rightarrow> string option \<Rightarrow> missing_input + discrepancy report_part list" where
  "compare_rates dir customer_id service_type =
     (case compare_rates_findings dir customer_id service_type of
        Inl e \<Rightarrow> Inl e
      | Inr ds \<Rightarrow> Inr (rate_report ds))"


text \<open>The contract that the lookup holds for a key: the last one of the input with that key.\<close>

definition last_contract :: "contract list \<Rightarrow> key \<Rightarrow> contract option" where
  "last_contract contracts k = find (\<lambda>c. contract_key c = k) (rev contracts)"

definition passes :: "string option \<Rightarrow> string option \<Rightarrow> key \<Rightarrow> bool" where
  "passes customer_id service_type k =
     ((truthy customer_id \<longrightarrow> Some (fst k) = customer_id) \<and>
      (truthy service_type \<longrightarrow> Some (snd k) = service_type))"

section \<open>detect\_missing\_charges\<close>

text \<open>The loop that fills the set \<^verbatim>\<open>billed_services\<close>.\<close>

fun billed_services :: "billing_record list \<Rightarrow> key set \<Rightarrow> key set" where
  "billed_services [] s = s"
| "billed_services (row # rows) s = billed_services rows (insert (billing_key row) s)"

text \<open>The loop over the contracts: a contract whose key was never billed is appended.\<close>

fun missing_charges :: "key set \<Rightarrow> contract list \<Rightarrow> contract list" where
  "missing_charges billed [] = []"
| "missing_charges billed (c # cs) =
     (if contract_key c \<notin> billed then c # missing_charges billed cs
      else missing_charges billed cs)"

definition missing_report :: "contract list \<Rightarrow> contract report_part list" where
  "missing_report ms =
     (if ms = [] then [NoneFound]
      else [Found (length ms)]
           @ details 0 (take 10 ms)
           @ (if length ms > 10 then [AndMore (length ms - 10)] else []))"

definition detect_missing_charges_findings :: "data_dir \<Rightarrow> missing_input + contract list" where
  "detect_missing_charges_findings dir =
     (case contracts_file dir of
        None \<Rightarrow> Inl ContractsFileNotFound
      | Some contracts \<Rightarrow>
          (case billing_file dir of
             None \<Rightarrow> Inl BillingFileNotFound
           | Some billing_df \<Rightarrow>
               Inr (missing_charges (billed_services billing_df {}) contracts)))"

definition detect_missing_charges :: "data_dir \<Rightarrow> missing_input + contract report_part list" where
  "detect_missing_charges dir =
     (case detect_missing_charges_findings dir of
        Inl e \<Rightarrow> Inl e
      | Inr ms \<Rightarrow> Inr (missing_report ms))"

section \<open>detect\_duplicate\_entries\<close>

text \<open>
  The columns of \<^verbatim>\<open>duplicate_columns\<close>, in the order of the source: every column
  of the frame except \<^verbatim>\<open>invoice_id\<close>. Tuples are ordered lexicographically, strings
  by their characters, as the sort of the frame and the group keys are.
\<close>

type_synonym business_key = "string \<times> string \<times> rat \<times> rat \<times> rat \<times> string"

definition duplicate_columns :: "billing_record \<Rightarrow> business_key" where
  "duplicate_columns row =
     (b_customer_id row, b_service_type row, b_billed_rate row, b_usage_quantity row,
      b_total_charge row, b_date row)"

text \<open>
  \<^verbatim>\<open>billing_df.duplicated(subset=duplicate_columns, keep=False)\<close>: the mask that is
  true at every row whose columns occur in more than one row of the frame.
\<close>

definition duplicated :: "billing_record list \<Rightarrow> bool list" where
  "duplicated billing_df =
     map (\<lambda>row. 1 < length (filter (\<lambda>row'. duplicate_columns row' = duplicate_columns row) billing_df))
       billing_df"

text \<open>\<^verbatim>\<open>billing_df[mask]\<close>: the rows at which the mask is true, in the order of the frame.\<close>

definition select_rows :: "billing_record list \<Rightarrow> bool list \<Rightarrow> billing_record list" where
  "select_rows billing_df flags = map fst (filter snd (zip billing_df flags))"

text \<open>
  The frame \<^verbatim>\<open>duplicates\<close>: the selected rows after
  \<^verbatim>\<open>sort_values(by=duplicate_columns)\<close>, a stable sort.
\<close>

definition duplicates :: "billing_record list \<Rightarrow> billing_record list" where
  "duplicates billing_df = sort_key duplicate_columns (select_rows billing_df (duplicated billing_df))"

text \<open>
  \<^verbatim>\<open>duplicates.groupby(duplicate_columns)\<close>: one group per distinct key, the keys
  in ascending order, every group holding its rows in the order of the frame.
\<close>

definition groupby :: "billing_record list \<Rightarrow> (business_key \<times> billing_record list) list" where
  "groupby df =
     map (\<lambda>k. (k, filter (\<lambda>row. duplicate_columns row = k) df))
       (sort (remdups (map duplicate_columns df)))"

text \<open>A detail of the report: the group key and the invoice ids of the group.\<close>

definition group_detail :: "business_key \<times> billing_record list \<Rightarrow> business_key \<times> int list" where
  "group_detail g = (fst g, map b_invoice_id (snd g))"

definition duplicate_report ::
  "billing_record list \<Rightarrow> (business_key \<times> int list) report_part list" where
  "duplicate_report dups =
     (if dups = [] then [NoneFound]
      else (let duplicate_groups = groupby dups
            in [Found (length dups)]
               @ details 0 (map group_detail (take 10 duplicate_groups))
               @ (if length duplicate_groups > 10
                  then [AndMore (length duplicate_groups - 10)] else [])))"

text \<open>The findings: the duplicate clusters, each with its key and its rows.\<close>

definition detect_duplicate_entries_findings ::
  "data_dir \<Rightarrow> missing_input + (business_key \<times> billing_record list) list" where
  "detect_duplicate_entries_findings dir =
     (case billing_file dir of
        None \<Rightarrow> Inl BillingFileNotFound
      | Some billing_df \<Rightarrow> Inr (groupby (duplicates billing_df)))"

definition detect_duplicate_entries ::
  "data_dir \<Rightarrow> missing_input + (business_key \<times> int list) report_part list" where
  "detect_duplicate_entries dir =
     (case billing_file dir of
        None \<Rightarrow> Inl BillingFileNotFound
      | Some billing_df \<Rightarrow> Inr (duplicate_report (duplicates billing_df)))"

section \<open>detect\_usage\_mismatches\<close>

record mismatch =
  m_customer_id :: string
  m_service_type :: string
  m_recorded_usage :: rat
  m_billed_usage :: rat
  m_difference :: rat
  m_difference_pct :: rat

text \<open>The aggregation of the two sources: a key that is not in the dictionary yet starts at 0.\<close>

definition add_to :: "(key \<rightharpoonup> rat) \<Rightarrow> key \<Rightarrow> rat \<Rightarrow> (key \<rightharpoonup> rat)" where
  "add_to m k v =
     (let m' = (if k \<notin> dom m then m(k \<mapsto> 0) else m)
      in m'(k \<mapsto> the (m' k) + v))"

fun usage_by_customer_service :: "usage_log list \<Rightarrow> (key \<rightharpoonup> rat) \<Rightarrow> (key \<rightharpoonup> rat)" where
  "usage_by_customer_service [] m = m"
| "usage_by_customer_service (l # logs) m =
     usage_by_customer_service logs (add_to m (usage_key l) (u_recorded_usage l))"

fun billing_by_customer_service :: "billing_record list \<Rightarrow> (key \<rightharpoonup> rat) \<Rightarrow> (key \<rightharpoonup> rat)" where
  "billing_by_customer_service [] m = m"
| "billing_by_customer_service (row # rows) m =
     billing_by_customer_service rows (add_to m (billing_key row) (b_usage_quantity row))"

text \<open>\<^verbatim>\<open>d.get(key, 0)\<close>.\<close>

definition get_or_0 :: "(key \<rightharpoonup> rat) \<Rightarrow> key \<Rightarrow> rat" where
  "get_or_0 m k = (case m k of None \<Rightarrow> 0 | Some v \<Rightarrow> v)"

text \<open>
  The loop over the keys. The source iterates over a Python set of tuples of strings,
  \<^verbatim>\<open>set(usage.keys()) | set(billing.keys())\<close>. The order in which a set yields its
  elements is not given by the elements: it follows their hash values, and the hash of
  a string changes from one interpreter process to the next. The order is therefore an
  argument of the model, the list \<open>keys\<close>.
\<close>

fun mismatches :: "(key \<rightharpoonup> rat) \<Rightarrow> (key \<rightharpoonup> rat) \<Rightarrow> key list \<Rightarrow> mismatch list" where
  "mismatches usage_map billing_map [] = []"
| "mismatches usage_map billing_map (k # keys) =
     (let usage = get_or_0 usage_map k;
          billed = get_or_0 billing_map k
      in if usage > 0 \<and> billed > 0
         then (let difference_pct = \<bar>usage - billed\<bar> / max usage billed * 100
               in if difference_pct > 10
                  then \<lparr> m_customer_id = fst k,
                         m_service_type = snd k,
                         m_recorded_usage = usage,
                         m_billed_usage = billed,
                         m_difference = usage - billed,
                         m_difference_pct = difference_pct \<rparr>
                       # mismatches usage_map billing_map keys
                  else mismatches usage_map billing_map keys)
         else mismatches usage_map billing_map keys)"

text \<open>
  \<open>iteration_order logs rows keys\<close>: the list \<open>keys\<close> is an order in which the union of
  the key sets of the two aggregates can be iterated: every key once.
\<close>

definition iteration_order :: "usage_log list \<Rightarrow> billing_record list \<Rightarrow> key list \<Rightarrow> bool" where
  "iteration_order logs rows keys =
     (distinct keys \<and>
      set keys = dom (usage_by_customer_service logs Map.empty)
                 \<union> dom (billing_by_customer_service rows Map.empty))"

definition usage_report :: "mismatch list \<Rightarrow> mismatch report_part list" where
  "usage_report ms =
     (if ms = [] then [NoneFound]
      else [Found (length ms)]
           @ details 0 (take 10 ms)
           @ (if length ms > 10 then [AndMore (length ms - 10)] else []))"

definition detect_usage_mismatches_findings ::
  "data_dir \<Rightarrow> key list \<Rightarrow> missing_input + mismatch list" where
  "detect_usage_mismatches_findings dir keys =
     (case usage_file dir of
        None \<Rightarrow> Inl UsageLogsFileNotFound
      | Some usage_logs \<Rightarrow>
          (case billing_file dir of
             None \<Rightarrow> Inl BillingFileNotFound
           | Some billing_df \<Rightarrow>
               Inr (mismatches (usage_by_customer_service usage_logs Map.empty)
                      (billing_by_customer_service billing_df Map.empty) keys)))"

definition detect_usage_mismatches ::
  "data_dir \<Rightarrow> key list \<Rightarrow> missing_input + mismatch report_part list" where
  "detect_usage_mismatches dir keys =
     (case detect_usage_mismatches_findings dir keys of
        Inl e \<Rightarrow> Inl e
      | Inr ms \<Rightarrow> Inr (usage_report ms))"

section \<open>Example data and report projections\<close>

definition example_contract :: "string \<Rightarrow> rat \<Rightarrow> contract" where
  "example_contract cid rate =
     \<lparr> c_contract_id = cid, c_customer_id = ''C100'', c_service_type = ''cloud_storage'',
       c_agreed_rate = rate, c_start_date = ''2024-01-01'', c_end_date = ''2024-12-31'' \<rparr>"

definition example_row :: "int \<Rightarrow> rat \<Rightarrow> rat \<Rightarrow> billing_record" where
  "example_row i rate usage =
     \<lparr> b_invoice_id = i, b_customer_id = ''C100'', b_service_type = ''cloud_storage'',
       b_billed_rate = rate, b_usage_quantity = usage, b_total_charge = rate * usage,
       b_date = ''2024-01-01'' \<rparr>"

definition example_dir :: "contract list \<Rightarrow> billing_record list \<Rightarrow> usage_log list \<Rightarrow> data_dir" where
  "example_dir contracts rows logs =
     \<lparr> contracts_file = Some contracts, billing_file = Some rows, usage_file = Some logs \<rparr>"

text \<open>The findings that a report gives the details of, in the order of the report.\<close>

fun detailed :: "'d report_part list \<Rightarrow> 'd list" where
  "detailed [] = []"
| "detailed (Detail i d # ps) = d # detailed ps"
| "detailed (p # ps) = detailed ps"

definition eleven_rows :: "billing_record list" where
  "eleven_rows = map (\<lambda>i. example_row i (4 / 100) 100) [1, 2, 3, 4, 5, 6, 7, 8, 9, 10, 11]"

definition other_contract :: contract where
  "other_contract =
     \<lparr> c_contract_id = ''CT9'', c_customer_id = ''C200'', c_service_type = ''bandwidth'',
       c_agreed_rate = 8 / 100, c_start_date = ''2024-01-01'', c_end_date = ''2024-12-31'' \<rparr>"

definition orphan_row :: billing_record where
  "orphan_row =
     \<lparr> b_invoice_id = 77, b_customer_id = ''C300'', b_service_type = ''api_calls'',
       b_billed_rate = 1 / 1000, b_usage_quantity = 5000, b_total_charge = 5,
       b_date = ''2024-02-01'' \<rparr>"




text \<open>
  The sums that the claims speak of: the recorded usage of the logs with a key, and the
  usage quantity of the billing rows with a key.
\<close>

definition usage_sum :: "usage_log list \<Rightarrow> key \<Rightarrow> rat" where
  "usage_sum logs k = sum_list (map u_recorded_usage (filter (\<lambda>l. usage_key l = k) logs))"

definition billed_sum :: "billing_record list \<Rightarrow> key \<Rightarrow> rat" where
  "billed_sum rows k = sum_list (map b_usage_quantity (filter (\<lambda>r. billing_key r = k) rows))"

text \<open>The test of the loop over the keys, on the two aggregates of a key.\<close>

definition flagged :: "rat \<Rightarrow> rat \<Rightarrow> bool" where
  "flagged usage billed =
     (usage > 0 \<and> billed > 0 \<and> \<bar>usage - billed\<bar> / max usage billed * 100 > 10)"

text \<open>The key of a mismatch, and the mismatch that the loop appends for a flagged key.\<close>

definition mismatch_key :: "mismatch \<Rightarrow> key" where
  "mismatch_key m = (m_customer_id m, m_service_type m)"

text \<open>Further example data.\<close>

definition example_log :: "rat \<Rightarrow> usage_log" where
  "example_log usage =
     \<lparr> u_customer_id = ''C100'', u_service_type = ''cloud_storage'', u_recorded_usage = usage \<rparr>"

definition make_mismatch :: "(key \<rightharpoonup> rat) \<Rightarrow> (key \<rightharpoonup> rat) \<Rightarrow> key \<Rightarrow> mismatch" where
  "make_mismatch usage_map billing_map k =
     \<lparr> m_customer_id = fst k,
       m_service_type = snd k,
       m_recorded_usage = get_or_0 usage_map k,
       m_billed_usage = get_or_0 billing_map k,
       m_difference = get_or_0 usage_map k - get_or_0 billing_map k,
       m_difference_pct = \<bar>get_or_0 usage_map k - get_or_0 billing_map k\<bar>
                            / max (get_or_0 usage_map k) (get_or_0 billing_map k) * 100 \<rparr>"

definition other_log :: usage_log where
  "other_log = \<lparr> u_customer_id = ''C300'', u_service_type = ''api_calls'', u_recorded_usage = 1000 \<rparr>"

definition two_key_dir :: data_dir where
  "two_key_dir = example_dir [] [example_row 1 (5 / 100) 89, orphan_row] [example_log 100, other_log]"

definition no_contracts_dir :: data_dir where
  "no_contracts_dir =
     \<lparr> contracts_file = None, billing_file = Some [example_row 1 (5 / 100) 89],
       usage_file = Some [example_log 100] \<rparr>"

section \<open>Properties of compare\_rates\<close>


lemma find_app:
  "find P (xs @ ys) = (case find P xs of None \<Rightarrow> find P ys | Some x \<Rightarrow> Some x)"
  by (induction xs) auto

lemma last_contract_Nil: "last_contract [] k = None"
  by (simp add: last_contract_def)

lemma last_contract_Cons:
  "last_contract (c # cs) k =
     (case last_contract cs k of Some c' \<Rightarrow> Some c' | None \<Rightarrow> if contract_key c = k then Some c else None)"
  by (simp add: last_contract_def find_app split: option.splits)

lemma contract_lookup_eq:
  "contract_lookup cs m k = (case last_contract cs k of Some c \<Rightarrow> Some c | None \<Rightarrow> m k)"
  by (induction cs arbitrary: m) (auto simp: last_contract_Nil last_contract_Cons split: option.splits)


lemma last_contract_None_iff:
  "last_contract cs k = None \<longleftrightarrow> (\<forall>c \<in> set cs. contract_key c \<noteq> k)"
  by (auto simp: last_contract_def find_None_iff)


lemma last_contract_SomeD:
  "last_contract cs k = Some c \<Longrightarrow>
   \<exists>pre post. cs = pre @ c # post \<and> contract_key c = k \<and> (\<forall>c' \<in> set post. contract_key c' \<noteq> k)"
proof (induction cs)
  case Nil
  then show ?case by (simp add: last_contract_Nil)
next
  case (Cons a cs)
  show ?case
  proof (cases "last_contract cs k")
    case None
    with Cons.prems have "contract_key a = k" "c = a"
      by (auto simp: last_contract_Cons split: if_splits)
    moreover from None have "\<forall>c' \<in> set cs. contract_key c' \<noteq> k"
      by (simp add: last_contract_None_iff)
    ultimately show ?thesis by blast
  next
    case (Some c')
    with Cons.prems have "c' = c" by (simp add: last_contract_Cons)
    with Some Cons.IH obtain pre post where
      "cs = pre @ c # post" "contract_key c = k" "\<forall>c' \<in> set post. contract_key c' \<noteq> k"
      by blast
    then have "a # cs = (a # pre) @ c # post" by simp
    with \<open>contract_key c = k\<close> \<open>\<forall>c' \<in> set post. contract_key c' \<noteq> k\<close> show ?thesis by blast
  qed
qed

lemma last_contract_filter:
  "(\<And>c. contract_key c = k \<Longrightarrow> Q c = q) \<Longrightarrow>
   last_contract (filter Q cs) k = (if q then last_contract cs k else None)"
  by (induction cs) (auto simp: last_contract_Nil last_contract_Cons split: option.splits)

lemma last_contract_filter_contracts:
  "last_contract (filter_contracts customer_id service_type cs) k =
     (if passes customer_id service_type k then last_contract cs k else None)"
proof -
  have a: "last_contract (filter (\<lambda>c. Some (c_customer_id c) = customer_id) xs) k =
      (if Some (fst k) = customer_id then last_contract xs k else None)" for xs
    by (rule last_contract_filter) (auto simp: contract_key_def)
  have b: "last_contract (filter (\<lambda>c. Some (c_service_type c) = service_type) xs) k =
      (if Some (snd k) = service_type then last_contract xs k else None)" for xs
    by (rule last_contract_filter) (auto simp: contract_key_def)
  show ?thesis
    unfolding filter_contracts_def Let_def passes_def
    by (simp add: a b del: filter_filter)
qed

lemma lookup_filter_contracts:
  "contract_lookup (filter_contracts customer_id service_type cs) Map.empty k =
     (if passes customer_id service_type k then last_contract cs k else None)"
  by (simp add: contract_lookup_eq last_contract_filter_contracts split: option.splits)

lemma set_filter_billing:
  "set (filter_billing customer_id service_type rows) =
     {r \<in> set rows. passes customer_id service_type (billing_key r)}"
  by (auto simp: filter_billing_def passes_def billing_key_def Let_def)

lemma discrepancies_concat:
  "discrepancies lookup rows =
     concat (map (\<lambda>row. case lookup (billing_key row) of
                          None \<Rightarrow> []
                        | Some c \<Rightarrow> if \<bar>c_agreed_rate c - b_billed_rate row\<bar> > 1 / 10000
                                    then [make_discrepancy c row] else []) rows)"
  by (induction rows) (auto split: option.splits)

lemma set_discrepancies:
  "set (discrepancies lookup rows) =
     {make_discrepancy c row | c row. row \<in> set rows \<and> lookup (billing_key row) = Some c \<and>
        \<bar>c_agreed_rate c - b_billed_rate row\<bar> > 1 / 10000}"
  by (induction rows) (auto split: option.splits)

lemma set_rate_discrepancies:
  "set (rate_discrepancies customer_id service_type contracts billing_df) =
     {make_discrepancy c row | c row. row \<in> set billing_df \<and>
        passes customer_id service_type (billing_key row) \<and>
        last_contract contracts (billing_key row) = Some c \<and>
        \<bar>c_agreed_rate c - b_billed_rate row\<bar> > 1 / 10000}"
  unfolding rate_discrepancies_def set_discrepancies lookup_filter_contracts set_filter_billing
  by auto

lemmas example_defs = example_contract_def example_row_def example_dir_def





lemma rate_discrepancy_origin:
  assumes "d \<in> set (rate_discrepancies customer_id service_type contracts billing_df)"
  obtains c row where "d = make_discrepancy c row" and "row \<in> set billing_df"
    and "last_contract contracts (billing_key row) = Some c"
    and "\<bar>c_agreed_rate c - b_billed_rate row\<bar> > 1 / 10000"
  using assms unfolding set_rate_discrepancies by blast

lemma findings_InrD:
  assumes "compare_rates_findings dir customer_id service_type = Inr ds"
  obtains contracts billing_df where "contracts_file dir = Some contracts"
    and "billing_file dir = Some billing_df"
    and "ds = rate_discrepancies customer_id service_type contracts billing_df"
  using assms by (auto simp: compare_rates_findings_def split: option.splits)




text \<open>
  Claim C8. When several contracts of the input share a key, every discrepancy for a
  billing row with that key takes its agreed rate from the contract that comes last in
  the input: the contracts after it have other keys.
\<close>

theorem last_contract_wins:
  assumes "contracts_file dir = Some contracts"
    and "compare_rates_findings dir customer_id service_type = Inr ds" and "d \<in> set ds"
  shows "\<exists>pre c post. contracts = pre @ c # post \<and>
      contract_key c = (d_customer_id d, d_service_type d) \<and>
      (\<forall>c' \<in> set post. contract_key c' \<noteq> (d_customer_id d, d_service_type d)) \<and>
      d_agreed_rate d = c_agreed_rate c"
proof -
  from assms(2) obtain contracts' billing_df where "contracts_file dir = Some contracts'"
    and ds: "ds = rate_discrepancies customer_id service_type contracts' billing_df"
    by (rule findings_InrD)
  with assms(1) have "contracts' = contracts" by simp
  with ds assms(3) obtain c row where d: "d = make_discrepancy c row"
    and l: "last_contract contracts (billing_key row) = Some c"
    by (auto elim: rate_discrepancy_origin)
  have k: "billing_key row = (d_customer_id d, d_service_type d)"
    by (simp add: d make_discrepancy_def billing_key_def)
  from l obtain pre post where "contracts = pre @ c # post"
    "contract_key c = billing_key row" "\<forall>c' \<in> set post. contract_key c' \<noteq> billing_key row"
    by (blast dest: last_contract_SomeD)
  moreover have "d_agreed_rate d = c_agreed_rate c"
    by (simp add: d make_discrepancy_def)
  ultimately show ?thesis unfolding k by blast
qed

lemma example_findings_2:
  "compare_rates_findings
     (example_dir [example_contract ''CT1'' (5 / 100), example_contract ''CT2'' (7 / 100)]
        [example_row 1 (5 / 100) 100] []) None None
   = Inr [make_discrepancy (example_contract ''CT2'' (7 / 100)) (example_row 1 (5 / 100) 100)]"
  by (simp add: compare_rates_findings_def rate_discrepancies_def filter_contracts_def
        filter_billing_def truthy_def example_defs contract_key_def billing_key_def)

theorem last_contract_wins_witness:
  "\<exists>pre c post. [example_contract ''CT1'' (5 / 100), example_contract ''CT2'' (7 / 100)] = pre @ c # post \<and>
      contract_key c = (''C100'', ''cloud_storage'') \<and>
      (\<forall>c' \<in> set post. contract_key c' \<noteq> (''C100'', ''cloud_storage'')) \<and>
      c_agreed_rate c = 7 / 100"
  using last_contract_wins[OF _ example_findings_2,
      of "[example_contract ''CT1'' (5 / 100), example_contract ''CT2'' (7 / 100)]"
         "make_discrepancy (example_contract ''CT2'' (7 / 100)) (example_row 1 (5 / 100) 100)"]
  by (simp add: make_discrepancy_def example_defs)


lemma detailed_append: "detailed (xs @ ys) = detailed xs @ detailed ys"
  by (induction xs rule: detailed.induct) auto

lemma detailed_details: "detailed (details i xs) = xs"
  by (induction xs arbitrary: i) auto

lemma details_nth: "j < length xs \<Longrightarrow> Detail (Suc (i + j)) (xs ! j) \<in> set (details i xs)"
proof (induction xs arbitrary: i j)
  case Nil
  then show ?case by simp
next
  case (Cons x xs)
  show ?case
  proof (cases j)
    case 0
    then show ?thesis by simp
  next
    case (Suc j')
    with Cons.prems have "j' < length xs" by simp
    from Cons.IH[OF this, of "Suc i"] Suc show ?thesis by simp
  qed
qed

lemma no_total_details: "Total t \<notin> set (details i xs)"
  by (induction xs arbitrary: i) auto

lemma detailed_missing_report: "detailed (missing_report ms) = take 10 ms"
  by (simp add: missing_report_def detailed_append detailed_details)

lemma detailed_usage_report: "detailed (usage_report us) = take 10 us"
  by (simp add: usage_report_def detailed_append detailed_details)

lemma detailed_duplicate_report:
  "detailed (duplicate_report dups) = map group_detail (take 10 (groupby dups))"
  by (simp add: duplicate_report_def Let_def detailed_append detailed_details groupby_def)

text \<open>
  Claim C9, as amended. The report of \<^verbatim>\<open>compare_rates\<close> states the count of all
  discrepancies and the total revenue impact summed over all of them, and it details the
  first ten discrepancies only, numbered from 1 in the order they were found; when there
  are more than ten it ends with the count of the ones it left out. With no discrepancy
  the report is the single message that none was found. The reports of the other three
  detectors state the count of all findings (of all duplicate rows, for the duplicates)
  and detail the first ten findings (the first ten clusters); they state no total.
\<close>

theorem rate_report_contents:
  assumes "compare_rates_findings dir customer_id service_type = Inr ds"
  shows "\<exists>rep. compare_rates dir customer_id service_type = Inr rep \<and>
    (ds = [] \<longrightarrow> rep = [NoneFound]) \<and>
    (ds \<noteq> [] \<longrightarrow> Found (length ds) \<in> set rep \<and>
                Total (sum_list (map d_revenue_impact ds)) \<in> set rep) \<and>
    detailed rep = take 10 ds \<and>
    (\<forall>i < min 10 (length ds). Detail (Suc i) (ds ! i) \<in> set rep) \<and>
    (10 < length ds \<longrightarrow> AndMore (length ds - 10) \<in> set rep) \<and>
    (ms \<noteq> [] \<longrightarrow> Found (length ms) \<in> set (missing_report ms)) \<and>
    detailed (missing_report ms) = take 10 ms \<and>
    (\<forall>t. Total t \<notin> set (missing_report ms)) \<and>
    (us \<noteq> [] \<longrightarrow> Found (length us) \<in> set (usage_report us)) \<and>
    detailed (usage_report us) = take 10 us \<and>
    (\<forall>t. Total t \<notin> set (usage_report us)) \<and>
    (dups \<noteq> [] \<longrightarrow> Found (length dups) \<in> set (duplicate_report dups)) \<and>
    detailed (duplicate_report dups) = map group_detail (take 10 (groupby dups)) \<and>
    (\<forall>t. Total t \<notin> set (duplicate_report dups))"
proof -
  have r: "compare_rates dir customer_id service_type = Inr (rate_report ds)"
    using assms by (simp add: compare_rates_def)
  have 1: "ds = [] \<longrightarrow> rate_report ds = [NoneFound]"
    by (simp add: rate_report_def)
  have 2: "ds \<noteq> [] \<longrightarrow> Found (length ds) \<in> set (rate_report ds) \<and>
                Total (sum_list (map d_revenue_impact ds)) \<in> set (rate_report ds)"
    by (simp add: rate_report_def)
  have 3: "detailed (rate_report ds) = take 10 ds"
    by (simp add: rate_report_def detailed_append detailed_details)
  have 4: "\<forall>i < min 10 (length ds). Detail (Suc i) (ds ! i) \<in> set (rate_report ds)"
  proof (intro allI impI)
    fix i assume i: "i < min 10 (length ds)"
    then have "i < length (take 10 ds)" by simp
    from details_nth[OF this, of 0] i have "Detail (Suc i) (ds ! i) \<in> set (details 0 (take 10 ds))"
      by simp
    moreover from i have "ds \<noteq> []" by auto
    ultimately show "Detail (Suc i) (ds ! i) \<in> set (rate_report ds)"
      by (simp add: rate_report_def)
  qed
  have 5: "10 < length ds \<longrightarrow> AndMore (length ds - 10) \<in> set (rate_report ds)"
    by (auto simp: rate_report_def)
  have 6: "ms \<noteq> [] \<longrightarrow> Found (length ms) \<in> set (missing_report ms)"
    and 7: "us \<noteq> [] \<longrightarrow> Found (length us) \<in> set (usage_report us)"
    and 8: "dups \<noteq> [] \<longrightarrow> Found (length dups) \<in> set (duplicate_report dups)"
    by (simp_all add: missing_report_def usage_report_def duplicate_report_def Let_def)
  have 9: "\<forall>t. Total t \<notin> set (missing_report ms)"
    and 10: "\<forall>t. Total t \<notin> set (usage_report us)"
    and 11: "\<forall>t. Total t \<notin> set (duplicate_report dups)"
    by (simp_all add: missing_report_def usage_report_def duplicate_report_def Let_def
        no_total_details)
  note 12 = detailed_missing_report[of ms] detailed_usage_report[of us]
    detailed_duplicate_report[of dups]
  from r 1 2 3 4 5 6 7 8 9 10 11 12 show ?thesis by blast
qed

lemma eleven_findings:
  "compare_rates_findings (example_dir [example_contract ''CT1'' (5 / 100)] eleven_rows []) None None
   = Inr (map (make_discrepancy (example_contract ''CT1'' (5 / 100))) eleven_rows)"
  by (simp add: compare_rates_findings_def rate_discrepancies_def filter_contracts_def
        filter_billing_def truthy_def example_defs contract_key_def billing_key_def eleven_rows_def)

lemma detailed_rate_report: "detailed (rate_report ds) = take 10 ds"
  by (simp add: rate_report_def detailed_append detailed_details)

lemma eleven_ids:
  "map d_invoice_id (map (make_discrepancy c) eleven_rows) = [1, 2, 3, 4, 5, 6, 7, 8, 9, 10, 11]"
  by (simp add: eleven_rows_def make_discrepancy_def example_row_def)

lemma eleven_impacts:
  "map d_revenue_impact (map (make_discrepancy (example_contract ''CT1'' (5 / 100))) eleven_rows)
     = [1, 1, 1, 1, 1, 1, 1, 1, 1, 1, 1]"
  by (simp add: eleven_rows_def make_discrepancy_def example_row_def example_contract_def)

theorem rate_report_contents_witness:
  "(\<exists>rep. compare_rates (example_dir [example_contract ''CT1'' (5 / 100)] eleven_rows []) None None = Inr rep \<and>
     Found 11 \<in> set rep \<and> Total 11 \<in> set rep \<and>
     map d_invoice_id (detailed rep) = [1, 2, 3, 4, 5, 6, 7, 8, 9, 10] \<and>
     AndMore 1 \<in> set rep) \<and>
   Found 1 \<in> set (missing_report [other_contract]) \<and>
   Found 1 \<in> set (usage_report [make_mismatch Map.empty Map.empty (''C100'', ''cloud_storage'')]) \<and>
   Found 11 \<in> set (duplicate_report eleven_rows)"
proof -
  let ?ds = "map (make_discrepancy (example_contract ''CT1'' (5 / 100))) eleven_rows"
  let ?us = "[make_mismatch Map.empty Map.empty (''C100'', ''cloud_storage'')]"
  have len: "length ?ds = 11" by (simp add: eleven_rows_def)
  then have ne: "?ds \<noteq> []" by auto
  have ne': "eleven_rows \<noteq> []" and len': "length eleven_rows = 11"
    by (simp_all add: eleven_rows_def)
  have tot: "sum_list (map d_revenue_impact ?ds) = 11"
    unfolding eleven_impacts by simp
  have ids: "map d_invoice_id (take 10 ?ds) = [1, 2, 3, 4, 5, 6, 7, 8, 9, 10]"
    unfolding take_map[symmetric] eleven_ids by simp
  from rate_report_contents[OF eleven_findings, of "[other_contract]" ?us eleven_rows]
  obtain rep where
    "compare_rates (example_dir [example_contract ''CT1'' (5 / 100)] eleven_rows []) None None = Inr rep"
    "?ds \<noteq> [] \<longrightarrow> Found (length ?ds) \<in> set rep \<and> Total (sum_list (map d_revenue_impact ?ds)) \<in> set rep"
    "detailed rep = take 10 ?ds"
    "10 < length ?ds \<longrightarrow> AndMore (length ?ds - 10) \<in> set rep"
    "[other_contract] \<noteq> [] \<longrightarrow> Found (length [other_contract]) \<in> set (missing_report [other_contract])"
    "?us \<noteq> [] \<longrightarrow> Found (length ?us) \<in> set (usage_report ?us)"
    "eleven_rows \<noteq> [] \<longrightarrow> Found (length eleven_rows) \<in> set (duplicate_report eleven_rows)"
    by blast
  with ne tot ids ne' show ?thesis unfolding len len' by auto
qed

text \<open>
  Claim C9 as stated fails on eleven discrepancies: the findings hold the invoices 1 to
  11, the report details the invoices 1 to 10.
\<close>

theorem rate_report_details_counterexample:
  "map_sum id (map d_invoice_id)
     (compare_rates_findings (example_dir [example_contract ''CT1'' (5 / 100)] eleven_rows []) None None)
     = Inr [1, 2, 3, 4, 5, 6, 7, 8, 9, 10, 11] \<and>
   map_sum id (\<lambda>rep. map d_invoice_id (detailed rep))
     (compare_rates (example_dir [example_contract ''CT1'' (5 / 100)] eleven_rows []) None None)
     = Inr [1, 2, 3, 4, 5, 6, 7, 8, 9, 10]"
proof -
  let ?ds = "map (make_discrepancy (example_contract ''CT1'' (5 / 100))) eleven_rows"
  have ids: "map d_invoice_id (take 10 ?ds) = [1, 2, 3, 4, 5, 6, 7, 8, 9, 10]"
    unfolding take_map[symmetric] eleven_ids by simp
  show ?thesis
    unfolding compare_rates_def eleven_findings
    by (simp only: map_sum.simps id_apply sum.case detailed_rate_report ids eleven_ids simp_thms)
qed

section \<open>Properties of detect\_missing\_charges\<close>

lemma billed_services_eq: "billed_services rows s = s \<union> billing_key ` set rows"
  by (induction rows arbitrary: s) auto

lemma missing_charges_filter:
  "missing_charges billed cs = filter (\<lambda>c. contract_key c \<notin> billed) cs"
  by (induction cs) auto

lemma missing_findings_Inr:
  "contracts_file dir = Some contracts \<Longrightarrow> billing_file dir = Some billing_df \<Longrightarrow>
   detect_missing_charges_findings dir =
     Inr (filter (\<lambda>c. contract_key c \<notin> billing_key ` set billing_df) contracts)"
  by (simp add: detect_missing_charges_findings_def billed_services_eq missing_charges_filter)

text \<open>
  Claim C3. A contract of the input is among the missing charges if and only if no
  billing row has its \<open>(customer_id, service_type)\<close> pair. A contract whose pair has a
  billing row is not flagged, whatever the rate, the quantity or the charge of that row.
\<close>

theorem missing_charge_iff_unbilled:
  assumes "contracts_file dir = Some contracts" and "billing_file dir = Some billing_df"
    and "ms = filter (\<lambda>c. \<forall>row \<in> set billing_df. billing_key row \<noteq> contract_key c) contracts"
  shows "detect_missing_charges_findings dir = Inr ms \<and>
    (\<forall>c \<in> set contracts.
       (c \<in> set ms \<longleftrightarrow> (\<forall>row \<in> set billing_df. billing_key row \<noteq> contract_key c)) \<and>
       ((\<exists>row \<in> set billing_df. billing_key row = contract_key c) \<longrightarrow> c \<notin> set ms))"
proof -
  have "(\<lambda>c. contract_key c \<notin> billing_key ` set billing_df)
      = (\<lambda>c. \<forall>row \<in> set billing_df. billing_key row \<noteq> contract_key c)"
    by (rule ext) (metis (no_types) image_iff)
  then have "detect_missing_charges_findings dir = Inr ms"
    using missing_findings_Inr[OF assms(1,2)] assms(3) by simp
  moreover have "\<forall>c \<in> set contracts.
       (c \<in> set ms \<longleftrightarrow> (\<forall>row \<in> set billing_df. billing_key row \<noteq> contract_key c)) \<and>
       ((\<exists>row \<in> set billing_df. billing_key row = contract_key c) \<longrightarrow> c \<notin> set ms)"
    unfolding assms(3) by auto
  ultimately show ?thesis by blast
qed

theorem missing_charge_iff_unbilled_witness:
  "detect_missing_charges_findings
     (example_dir [example_contract ''CT1'' (5 / 100), other_contract]
        [example_row 1 (9 / 100) 7] []) = Inr [other_contract]"
  using missing_charge_iff_unbilled[of
      "example_dir [example_contract ''CT1'' (5 / 100), other_contract] [example_row 1 (9 / 100) 7] []"
      "[example_contract ''CT1'' (5 / 100), other_contract]" "[example_row 1 (9 / 100) 7]"
      "[other_contract]"]
  by (simp add: example_defs other_contract_def contract_key_def billing_key_def)









section \<open>Properties of detect\_duplicate\_entries\<close>














section \<open>Properties of detect\_usage\_mismatches\<close>

lemma add_to_eq: "add_to m k v = m(k \<mapsto> get_or_0 m k + v)"
  by (auto simp: add_to_def get_or_0_def Let_def split: option.splits)

lemma dom_add_to: "dom (add_to m k v) = insert k (dom m)"
  by (simp add: add_to_eq)

lemma get_add_to: "get_or_0 (add_to m k v) k' = (if k' = k then get_or_0 m k + v else get_or_0 m k')"
  by (simp add: add_to_eq get_or_0_def)

lemma dom_usage: "dom (usage_by_customer_service logs m) = dom m \<union> usage_key ` set logs"
  by (induction logs arbitrary: m) (auto simp: dom_add_to)

lemma dom_billing: "dom (billing_by_customer_service rows m) = dom m \<union> billing_key ` set rows"
  by (induction rows arbitrary: m) (auto simp: dom_add_to)

lemma get_usage:
  "get_or_0 (usage_by_customer_service logs m) k = get_or_0 m k + usage_sum logs k"
  by (induction logs arbitrary: m) (auto simp: get_add_to usage_sum_def)

lemma get_billing:
  "get_or_0 (billing_by_customer_service rows m) k = get_or_0 m k + billed_sum rows k"
  by (induction rows arbitrary: m) (auto simp: get_add_to billed_sum_def)

lemma get_usage_empty: "get_or_0 (usage_by_customer_service logs Map.empty) k = usage_sum logs k"
  by (simp add: get_usage) (simp add: get_or_0_def)

lemma get_billing_empty: "get_or_0 (billing_by_customer_service rows Map.empty) k = billed_sum rows k"
  by (simp add: get_billing) (simp add: get_or_0_def)



lemma mismatches_map_filter:
  "mismatches usage_map billing_map keys =
     map (make_mismatch usage_map billing_map)
       (filter (\<lambda>k. flagged (get_or_0 usage_map k) (get_or_0 billing_map k)) keys)"
  by (induction keys) (auto simp: Let_def flagged_def make_mismatch_def)

lemma mismatch_key_make: "mismatch_key (make_mismatch u b k) = k"
  by (simp add: mismatch_key_def make_mismatch_def)


lemma iteration_order_exists: "\<exists>keys. iteration_order logs rows keys"
proof -
  have "finite (usage_key ` set logs \<union> billing_key ` set rows)" by simp
  from finite_distinct_list[OF this] show ?thesis
    by (auto simp: iteration_order_def dom_usage dom_billing)
qed


lemma usage_findings_Inr:
  "usage_file dir = Some usage_logs \<Longrightarrow> billing_file dir = Some billing_df \<Longrightarrow>
   detect_usage_mismatches_findings dir keys =
     Inr (map (make_mismatch (usage_by_customer_service usage_logs Map.empty)
                 (billing_by_customer_service billing_df Map.empty))
            (filter (\<lambda>k. flagged (usage_sum usage_logs k) (billed_sum billing_df k)) keys))"
  by (simp add: detect_usage_mismatches_findings_def mismatches_map_filter
      get_usage_empty get_billing_empty)



lemma example_iteration_order:
  "iteration_order [example_log 100] [example_row 1 (5 / 100) b] [(''C100'', ''cloud_storage'')]"
  unfolding iteration_order_def dom_usage dom_billing
  by (simp add: example_defs example_log_def usage_key_def billing_key_def)





section \<open>Order of the findings, and absent files\<close>

text \<open>
  Claim C10, as amended. \<^verbatim>\<open>compare_rates\<close>, \<^verbatim>\<open>detect_missing_charges\<close> and
  \<^verbatim>\<open>detect_duplicate_entries\<close> are functions of the record sets alone. The findings of
  \<^verbatim>\<open>detect_usage_mismatches\<close> are determined by the record sets up to their order: two
  runs on the same usage logs and billing rows, whatever the orders in which the two runs
  iterate the set of keys, yield the same findings the same number of times (each
  once), and the same list when there is at most one finding.
\<close>

theorem usage_mismatches_up_to_order:
  assumes "usage_file dir = Some usage_logs" and "billing_file dir = Some billing_df"
    and "iteration_order usage_logs billing_df keys1"
    and "iteration_order usage_logs billing_df keys2"
    and "detect_usage_mismatches_findings dir keys1 = Inr ms1"
    and "detect_usage_mismatches_findings dir keys2 = Inr ms2"
  shows "mset ms1 = mset ms2 \<and> distinct ms1 \<and> distinct ms2 \<and> length ms1 = length ms2 \<and>
    (length ms1 \<le> 1 \<longrightarrow> ms1 = ms2)"
proof -
  let ?U = "usage_by_customer_service usage_logs Map.empty"
  let ?B = "billing_by_customer_service billing_df Map.empty"
  let ?fl = "\<lambda>k. flagged (usage_sum usage_logs k) (billed_sum billing_df k)"
  have ms1: "ms1 = map (make_mismatch ?U ?B) (filter ?fl keys1)"
    using usage_findings_Inr[OF assms(1,2), of keys1] assms(5) by simp
  have ms2: "ms2 = map (make_mismatch ?U ?B) (filter ?fl keys2)"
    using usage_findings_Inr[OF assms(1,2), of keys2] assms(6) by simp
  have d: "distinct keys1" "distinct keys2" and s: "set keys1 = set keys2"
    using assms(3,4) by (simp_all add: iteration_order_def)
  then have "mset keys1 = mset keys2"
    by (simp add: set_eq_iff_mset_eq_distinct)
  then have m: "mset ms1 = mset ms2"
    unfolding ms1 ms2 by simp
  have inj: "inj_on (make_mismatch ?U ?B) A" for A
    by (rule inj_on_inverseI[where g = mismatch_key]) (simp add: mismatch_key_make)
  have d1: "distinct ms1" and d2: "distinct ms2"
    unfolding ms1 ms2 using d by (simp_all add: distinct_map inj)
  from m have l: "length ms1 = length ms2" by (rule mset_eq_length)
  have e: "length ms1 \<le> 1 \<longrightarrow> ms1 = ms2"
  proof
    assume "length ms1 \<le> 1"
    with l m show "ms1 = ms2"
      by (cases ms1; cases ms2) auto
  qed
  from m d1 d2 l e show ?thesis by blast
qed

lemma two_key_order_1:
  "iteration_order [example_log 100, other_log] [example_row 1 (5 / 100) 89, orphan_row]
     [(''C100'', ''cloud_storage''), (''C300'', ''api_calls'')]"
  unfolding iteration_order_def dom_usage dom_billing
  by (auto simp: example_defs example_log_def other_log_def orphan_row_def
      usage_key_def billing_key_def)

lemma two_key_order_2:
  "iteration_order [example_log 100, other_log] [example_row 1 (5 / 100) 89, orphan_row]
     [(''C300'', ''api_calls''), (''C100'', ''cloud_storage'')]"
  unfolding iteration_order_def dom_usage dom_billing
  by (auto simp: example_defs example_log_def other_log_def orphan_row_def
      usage_key_def billing_key_def)

lemma two_key_run_1:
  "detect_usage_mismatches_findings two_key_dir [(''C100'', ''cloud_storage''), (''C300'', ''api_calls'')]
   = Inr [\<lparr> m_customer_id = ''C100'', m_service_type = ''cloud_storage'',
             m_recorded_usage = 100, m_billed_usage = 89, m_difference = 11,
             m_difference_pct = 11 \<rparr>,
          \<lparr> m_customer_id = ''C300'', m_service_type = ''api_calls'',
             m_recorded_usage = 1000, m_billed_usage = 5000, m_difference = - 4000,
             m_difference_pct = 80 \<rparr>]"
  by (simp add: detect_usage_mismatches_findings_def two_key_dir_def example_defs example_log_def
      other_log_def orphan_row_def usage_key_def billing_key_def add_to_def get_or_0_def)

lemma two_key_run_2:
  "detect_usage_mismatches_findings two_key_dir [(''C300'', ''api_calls''), (''C100'', ''cloud_storage'')]
   = Inr [\<lparr> m_customer_id = ''C300'', m_service_type = ''api_calls'',
             m_recorded_usage = 1000, m_billed_usage = 5000, m_difference = - 4000,
             m_difference_pct = 80 \<rparr>,
          \<lparr> m_customer_id = ''C100'', m_service_type = ''cloud_storage'',
             m_recorded_usage = 100, m_billed_usage = 89, m_difference = 11,
             m_difference_pct = 11 \<rparr>]"
  by (simp add: detect_usage_mismatches_findings_def two_key_dir_def example_defs example_log_def
      other_log_def orphan_row_def usage_key_def billing_key_def add_to_def get_or_0_def)

theorem usage_mismatches_up_to_order_witness:
  "mset [\<lparr> m_customer_id = ''C100'', m_service_type = ''cloud_storage'',
             m_recorded_usage = 100, m_billed_usage = 89, m_difference = 11,
             m_difference_pct = 11 \<rparr>,
          \<lparr> m_customer_id = ''C300'', m_service_type = ''api_calls'',
             m_recorded_usage = 1000, m_billed_usage = 5000, m_difference = - 4000,
             m_difference_pct = 80 \<rparr>]
   = mset [\<lparr> m_customer_id = ''C300'', m_service_type = ''api_calls'',
             m_recorded_usage = 1000, m_billed_usage = 5000, m_difference = - 4000,
             m_difference_pct = 80 \<rparr>,
          \<lparr> m_customer_id = ''C100'', m_service_type = ''cloud_storage'',
             m_recorded_usage = 100, m_billed_usage = 89, m_difference = 11,
             m_difference_pct = 11 \<rparr>]"
  using usage_mismatches_up_to_order[OF _ _ two_key_order_1 two_key_order_2 two_key_run_1 two_key_run_2]
  by (simp add: two_key_dir_def example_dir_def)

text \<open>
  Claim C10 as stated fails for \<^verbatim>\<open>detect_usage_mismatches\<close>: with two flagged keys,
  the two orders in which the set of the two keys can be iterated give the two findings
  in opposite orders.
\<close>

theorem usage_mismatches_order_counterexample:
  "iteration_order [example_log 100, other_log] [example_row 1 (5 / 100) 89, orphan_row]
     [(''C100'', ''cloud_storage''), (''C300'', ''api_calls'')] \<and>
   iteration_order [example_log 100, other_log] [example_row 1 (5 / 100) 89, orphan_row]
     [(''C300'', ''api_calls''), (''C100'', ''cloud_storage'')] \<and>
   map_sum id (map m_customer_id)
     (detect_usage_mismatches_findings two_key_dir
        [(''C100'', ''cloud_storage''), (''C300'', ''api_calls'')]) = Inr [''C100'', ''C300''] \<and>
   map_sum id (map m_customer_id)
     (detect_usage_mismatches_findings two_key_dir
        [(''C300'', ''api_calls''), (''C100'', ''cloud_storage'')]) = Inr [''C300'', ''C100'']"
  unfolding two_key_run_1 two_key_run_2
  using two_key_order_1 two_key_order_2 by simp

text \<open>
  Claim C6, as amended. A detector that reads an absent file returns the message that
  the file was not found, with no finding, instead of raising: the usage logs are read by
  \<^verbatim>\<open>detect_usage_mismatches\<close> only, the contracts by \<^verbatim>\<open>compare_rates\<close> and by
  \<^verbatim>\<open>detect_missing_charges\<close>, the billing records by all four. A detector that does not
  read a file returns the same result whether the file is absent or present, whatever it
  holds: the other three detectors for the usage logs, \<^verbatim>\<open>detect_duplicate_entries\<close> and
  \<^verbatim>\<open>detect_usage_mismatches\<close> for the contracts.
\<close>

theorem missing_input_isolated:
  "(usage_file dir = None \<longrightarrow>
      detect_usage_mismatches_findings dir keys = Inl UsageLogsFileNotFound \<and>
      detect_usage_mismatches dir keys = Inl UsageLogsFileNotFound) \<and>
   (contracts_file dir = None \<longrightarrow>
      compare_rates_findings dir customer_id service_type = Inl ContractsFileNotFound \<and>
      compare_rates dir customer_id service_type = Inl ContractsFileNotFound \<and>
      detect_missing_charges_findings dir = Inl ContractsFileNotFound \<and>
      detect_missing_charges dir = Inl ContractsFileNotFound) \<and>
   (billing_file dir = None \<longrightarrow>
      detect_duplicate_entries_findings dir = Inl BillingFileNotFound \<and>
      detect_duplicate_entries dir = Inl BillingFileNotFound \<and>
      compare_rates dir customer_id service_type \<in> {Inl ContractsFileNotFound, Inl BillingFileNotFound} \<and>
      detect_missing_charges dir \<in> {Inl ContractsFileNotFound, Inl BillingFileNotFound} \<and>
      detect_usage_mismatches dir keys \<in> {Inl UsageLogsFileNotFound, Inl BillingFileNotFound}) \<and>
   compare_rates (dir\<lparr>usage_file := u\<rparr>) customer_id service_type
     = compare_rates dir customer_id service_type \<and>
   detect_missing_charges (dir\<lparr>usage_file := u\<rparr>) = detect_missing_charges dir \<and>
   detect_duplicate_entries (dir\<lparr>usage_file := u\<rparr>) = detect_duplicate_entries dir \<and>
   detect_duplicate_entries (dir\<lparr>contracts_file := c\<rparr>) = detect_duplicate_entries dir \<and>
   detect_usage_mismatches (dir\<lparr>contracts_file := c\<rparr>) keys = detect_usage_mismatches dir keys"
  by (auto simp: detect_usage_mismatches_findings_def detect_usage_mismatches_def
      compare_rates_findings_def compare_rates_def detect_missing_charges_findings_def
      detect_missing_charges_def detect_duplicate_entries_findings_def
      detect_duplicate_entries_def split: option.splits)

theorem missing_input_isolated_witness:
  "detect_usage_mismatches \<lparr> contracts_file = None, billing_file = None, usage_file = None \<rparr> []
     = Inl UsageLogsFileNotFound \<and>
   compare_rates \<lparr> contracts_file = None, billing_file = None, usage_file = None \<rparr> None None
     = Inl ContractsFileNotFound \<and>
   detect_duplicate_entries \<lparr> contracts_file = None, billing_file = None, usage_file = None \<rparr>
     = Inl BillingFileNotFound"
  using missing_input_isolated[of
      "\<lparr> contracts_file = None, billing_file = None, usage_file = None \<rparr>" "[]" None None None None]
  by simp

text \<open>
  Claim C6 as stated fails when the contracts are absent: \<^verbatim>\<open>detect_missing_charges\<close>,
  one of the three detectors other than \<^verbatim>\<open>compare_rates\<close>, returns the not-found
  message too, where it reports a missing charge once the contracts are there.
\<close>

theorem missing_contracts_counterexample:
  "compare_rates no_contracts_dir None None = Inl ContractsFileNotFound \<and>
   detect_missing_charges no_contracts_dir = Inl ContractsFileNotFound \<and>
   detect_missing_charges (no_contracts_dir\<lparr>contracts_file := Some [other_contract]\<rparr>)
     = Inr [Found 1, Detail 1 other_contract]"
  by (simp add: no_contracts_dir_def compare_rates_def compare_rates_findings_def
      detect_missing_charges_def detect_missing_charges_findings_def missing_report_def
      example_defs other_contract_def contract_key_def billing_key_def)

end
